theory Spec2Isabelle
  imports Main
begin

section \<open>Values, requests and replies\<close>

text \<open>
  Python values that flow through the client are parsed JSON bodies and the two stored
  tokens. \<open>JNull\<close> is Python's \<open>None\<close> (a JSON \<open>null\<close> parses to it, and
  \<open>dict.get\<close> returns it for a missing key). A JSON object is the parsed \<open>dict\<close>,
  kept as an association list. Numbers are restricted to integers.
\<close>

datatype json =
    JNull
  | JBool bool
  | JNum int
  | JStr string
  | JArr "json list"
  | JObj "(string \<times> json) list"

text \<open>Python's \<open>bool(v)\<close>, as used by \<open>not v\<close> and \<open>if v\<close>.\<close>

fun truthy :: "json \<Rightarrow> bool" where
  "truthy JNull = False"
| "truthy (JBool b) = b"
| "truthy (JNum n) = (n \<noteq> 0)"
| "truthy (JStr s) = (s \<noteq> [])"
| "truthy (JArr xs) = (xs \<noteq> [])"
| "truthy (JObj kvs) = (kvs \<noteq> [])"

text \<open>
  What the HTTP library and the body parser can raise: \<open>asyncio.TimeoutError\<close>,
  \<open>aiohttp.ClientError\<close>, or some other exception.
\<close>

datatype transport_error = TimeoutError | ClientError | OtherError

text \<open>
  How an await on the library ends when it gives no value: the library raises, or the call
  is still pending when the time of the \<open>async_timeout\<close> scopes around it runs out
  (\<open>Overrun\<close>). Every scope lasts \<open>API_TIMEOUT\<close> seconds and an enclosing scope is entered
  before the scopes inside it, so the outermost scope is the one that runs out. Its timer
  cancels the task: \<open>asyncio.CancelledError\<close>, a \<open>BaseException\<close> that no
  \<open>except Exception\<close> catches, is raised at the await and travels up to that scope, whose
  exit raises \<open>asyncio.TimeoutError\<close> in its place. Cancellation from outside the
  modelled code is not modelled.
\<close>

datatype failure = Raised transport_error | Overrun

text \<open>
  Every exception the modelled code raises or lets through. \<open>PWNAPIError\<close> carries the
  exception it was raised \<open>from\<close>; \<open>UpdateFailed\<close> carries the status code of its message.
\<close>

datatype exn =
    Transport transport_error
  | CancelledError
  | AttributeError
  | KeyError
  | UnboundLocalError
  | UpdateFailed int
  | PWNAPIError exn
  | PWNAPICommunicationError
  | PWNAPIAuthenticationError

text \<open>
  A request is a POST with its JSON payload or a GET; the GET carries the value that the
  f-string \<open>Bearer {access_token}\<close> formats into the Authorization header.
\<close>

datatype request =
    Post string "(string \<times> json) list"
  | Get string json

text \<open>
  The remote side answers a request with a status code and a body, or the call fails.
  The body is what \<open>await response.json()\<close> gives: a parsed value, or a failure.
\<close>

datatype reply =
    Response int "failure + json"
  | Failed failure

abbreviation Raise :: "transport_error \<Rightarrow> reply" where
  "Raise e \<equiv> Failed (Raised e)"

text \<open>
  The remote API is any function of the requests sent so far on the session (the last one
  is the request being answered).
\<close>

type_synonym server = "request list \<Rightarrow> reply"

section \<open>const.py\<close>

definition API_URL :: string where
  "API_URL = ''https://mijn.pwn.nl''"

definition API_ENDPOINTS :: "(string \<times> string) list" where
  "API_ENDPOINTS =
    [(''login'', API_URL @ ''/api/auth/login''),
     (''contact_preferences'', API_URL @ ''/api/Customer/contact-preferences''),
     (''settings'', API_URL @ ''/assets/configs/mijn-pwn-nl/settings.json''),
     (''takeover'', API_URL @ ''/api/Takeover?domain=2''),
     (''invoices_summary'', API_URL @ ''/api/Invoices/summary''),
     (''relation_data'', API_URL @ ''/api/Customer/relation-data''),
     (''payment_info'', API_URL @ ''/api/PaymentInfo''),
     (''advance'', API_URL @ ''/api/advance''),
     (''notifications'', API_URL @ ''/api/Notifications''),
     (''consumption_history'', API_URL @ ''/api/connection/consumption-history/dashboard'')]"

text \<open>\<open>API_ENDPOINTS[name]\<close>: the subscript raises \<open>KeyError\<close> on a missing key.\<close>

definition endpoint_item :: "string \<Rightarrow> exn + string" where
  "endpoint_item name =
    (case map_of API_ENDPOINTS name of None \<Rightarrow> Inl KeyError | Some url \<Rightarrow> Inr url)"

text \<open>\<open>d.get(key)\<close> on a parsed body: only a \<open>dict\<close> has the method.\<close>

fun dict_get :: "json \<Rightarrow> string \<Rightarrow> exn + json" where
  "dict_get (JObj kvs) k = Inr (case map_of kvs k of None \<Rightarrow> JNull | Some v \<Rightarrow> v)"
| "dict_get _ k = Inl AttributeError"

section \<open>api.py: PWNAuth\<close>

record PWNAuth =
  username :: string
  password :: string
  access_token :: json
  refresh_token :: json

text \<open>
  The client state: the authenticator object and the requests sent so far on the
  \<open>ClientSession\<close>.
\<close>

record client =
  auth :: PWNAuth
  sent :: "request list"

definition PWNAuth_init :: "string \<Rightarrow> string \<Rightarrow> PWNAuth" where
  "PWNAuth_init u p =
    \<lparr>username = u, password = p, access_token = JNull, refresh_token = JNull\<rparr>"

definition send :: "server \<Rightarrow> request \<Rightarrow> client \<Rightarrow> reply \<times> client" where
  "send srv rq st = (srv (sent st @ [rq]), st\<lparr>sent := sent st @ [rq]\<rparr>)"

definition login_payload :: "PWNAuth \<Rightarrow> (string \<times> json) list" where
  "login_payload a = [(''user'', JStr (username a)), (''password'', JStr (password a))]"

definition refresh_payload :: "PWNAuth \<Rightarrow> (string \<times> json) list" where
  "refresh_payload a =
    [(''user'', JStr (username a)), (''password'', JStr (password a)),
     (''refresh_token'', refresh_token a)]"

text \<open>
  \<open>PWNAuth.login\<close>, as \<open>fetch_data_from_api\<close> calls it: with no timeout scope of a
  caller entered. Its own scope is then the one that runs out on an overrun, and the
  \<open>asyncio.TimeoutError\<close> of the scope's exit is handled like the library's. So every
  failure inside the \<open>try\<close> (the subscript, the POST, the body parse, \<open>tokens.get\<close>) ends
  in \<open>return False\<close>; an assignment made before the exception stays.
\<close>

definition login :: "server \<Rightarrow> client \<Rightarrow> bool \<times> client" where
  "login srv st =
    (case endpoint_item ''login'' of
       Inl e \<Rightarrow> (False, st)
     | Inr url \<Rightarrow>
        (case send srv (Post url (login_payload (auth st))) st of
           (Failed f, st1) \<Rightarrow> (False, st1)
         | (Response status body, st1) \<Rightarrow>
            if status = 200 then
              (case body of
                 Inl f \<Rightarrow> (False, st1)
               | Inr tokens \<Rightarrow>
                  (case dict_get tokens ''accessToken'' of
                     Inl e \<Rightarrow> (False, st1)
                   | Inr a \<Rightarrow>
                      (let st2 = st1\<lparr>auth := (auth st1)\<lparr>access_token := a\<rparr>\<rparr> in
                       case dict_get tokens ''refreshToken'' of
                         Inl e \<Rightarrow> (False, st2)
                       | Inr r \<Rightarrow> (True, st2\<lparr>auth := (auth st2)\<lparr>refresh_token := r\<rparr>\<rparr>))))
            else (False, st1)))"

text \<open>
  What a failed await does to \<open>refresh_tokens\<close>. Its handlers log and drop every
  \<open>Exception\<close>, also the \<open>asyncio.TimeoutError\<close> of its own scope. When a caller's
  timeout scope is entered (\<open>enclosed\<close>), an overrun is the caller's scope running out:
  the \<open>CancelledError\<close> passes all the handlers and leaves the function.
\<close>

fun dropped :: "bool \<Rightarrow> failure \<Rightarrow> exn + unit" where
  "dropped True Overrun = Inl CancelledError"
| "dropped _ _ = Inr ()"

text \<open>
  \<open>PWNAuth.refresh_tokens\<close> of api.py. It returns \<open>None\<close> on every path that returns.
  The first parameter is the dynamic context that Python keeps in the running task:
  whether the caller has entered a timeout scope (as \<open>fetch_data_from_api\<close> has, at its
  line 189). The handler for \<open>PWNAPIAuthenticationError\<close> is never entered: nothing inside
  the \<open>try\<close> raises that class.
\<close>

definition refresh_tokens :: "bool \<Rightarrow> server \<Rightarrow> client \<Rightarrow> (exn + unit) \<times> client" where
  "refresh_tokens enclosed srv st =
    (if \<not> truthy (refresh_token (auth st)) then (Inr (), st)
     else
      (case endpoint_item ''login'' of
         Inl e \<Rightarrow> (Inr (), st)
       | Inr url \<Rightarrow>
          (case send srv (Post url (refresh_payload (auth st))) st of
             (Failed f, st1) \<Rightarrow> (dropped enclosed f, st1)
           | (Response status body, st1) \<Rightarrow>
              if status = 200 then
                (case body of
                   Inl f \<Rightarrow> (dropped enclosed f, st1)
                 | Inr tokens \<Rightarrow>
                    (case dict_get tokens ''accessToken'' of
                       Inl e \<Rightarrow> (Inr (), st1)
                     | Inr a \<Rightarrow>
                        (let st2 = st1\<lparr>auth := (auth st1)\<lparr>access_token := a\<rparr>\<rparr> in
                         case dict_get tokens ''refreshToken'' of
                           Inl e \<Rightarrow> (Inr (), st2)
                         | Inr r \<Rightarrow> (Inr (), st2\<lparr>auth := (auth st2)\<lparr>refresh_token := r\<rparr>\<rparr>))))
              else (Inr (), st1))))"

definition is_authenticated :: "PWNAuth \<Rightarrow> bool" where
  "is_authenticated a = truthy (access_token a)"

definition logout :: "PWNAuth \<Rightarrow> PWNAuth" where
  "logout a = a\<lparr>access_token := JNull, refresh_token := JNull\<rparr>"

section \<open>auth.py: PWNAuth (the synchronous variant)\<close>

text \<open>
  \<open>PWNAuth.refresh_tokens\<close> of auth.py posts with \<open>requests\<close> and returns a bool. Its
  only handler is for \<open>requests.exceptions.RequestException\<close>, the class of the
  library's own errors (here \<open>TimeoutError\<close> and \<open>ClientError\<close>, and the timeout that
  \<open>requests\<close> raises for a call that overruns its \<open>timeout\<close> argument); anything else
  propagates. The login URL is \<open>DATA_URL\<close> followed by \<open>auth/login\<close>; const.py defines no
  \<open>DATA_URL\<close>, so the URL is a parameter.
\<close>

fun request_exception :: "failure \<Rightarrow> exn + bool" where
  "request_exception (Raised OtherError) = Inl (Transport OtherError)"
| "request_exception _ = Inr False"

definition sync_refresh_tokens :: "server \<Rightarrow> string \<Rightarrow> client \<Rightarrow> (exn + bool) \<times> client" where
  "sync_refresh_tokens srv api_login_url st =
    (if \<not> truthy (refresh_token (auth st)) then (Inr False, st)
     else
      (case send srv (Post api_login_url (refresh_payload (auth st))) st of
         (Failed f, st1) \<Rightarrow> (request_exception f, st1)
       | (Response status body, st1) \<Rightarrow>
          if status = 200 then
            (case body of
               Inl f \<Rightarrow> (request_exception f, st1)
             | Inr tokens \<Rightarrow>
                (case dict_get tokens ''accessToken'' of
                   Inl e \<Rightarrow> (Inl e, st1)
                 | Inr a \<Rightarrow>
                    (let st2 = st1\<lparr>auth := (auth st1)\<lparr>access_token := a\<rparr>\<rparr> in
                     case dict_get tokens ''refreshToken'' of
                       Inl e \<Rightarrow> (Inl e, st2)
                     | Inr r \<Rightarrow> (Inr True, st2\<lparr>auth := (auth st2)\<lparr>refresh_token := r\<rparr>\<rparr>))))
          else (Inr False, st1)))"

section \<open>api.py: PWNAPI\<close>

text \<open>
  The exception with which a failed await leaves the timeout scope that
  \<open>fetch_data_from_api\<close> enters at its line 189: what the library raised, or, when the
  scope ran out, the \<open>asyncio.TimeoutError\<close> of its exit.
\<close>

fun leaves_scope :: "failure \<Rightarrow> exn" where
  "leaves_scope (Raised e) = Transport e"
| "leaves_scope Overrun = Transport TimeoutError"

text \<open>
  The body of the \<open>try\<close> in \<open>PWNAPI.fetch_data_from_api\<close>, with the exception it ends in.
  \<open>login\<close> runs before the timeout scope is entered, and its result is not looked at.
  The scope encloses the first GET, the call of \<open>refresh_tokens\<close> and the retry. After a
  401 or 403 the tokens are refreshed and the GET is sent once more; the retry's answer is
  final. A \<open>CancelledError\<close> that leaves \<open>refresh_tokens\<close> is the scope running out: no
  retry is sent and the scope's exit raises \<open>asyncio.TimeoutError\<close>.
\<close>

definition try_fetch :: "server \<Rightarrow> string \<Rightarrow> client \<Rightarrow> (exn + json) \<times> client" where
  "try_fetch srv url st =
    (let st1 = (if \<not> is_authenticated (auth st) then snd (login srv st) else st) in
     case send srv (Get url (access_token (auth st1))) st1 of
       (Failed f, st2) \<Rightarrow> (Inl (leaves_scope f), st2)
     | (Response status body, st2) \<Rightarrow>
        if status = 401 \<or> status = 403 then
          (case refresh_tokens True srv st2 of
             (Inl e, st3) \<Rightarrow>
               (Inl (if e = CancelledError then Transport TimeoutError else e), st3)
           | (Inr u, st3) \<Rightarrow>
              (case send srv (Get url (access_token (auth st3))) st3 of
                 (Failed f, st4) \<Rightarrow> (Inl (leaves_scope f), st4)
               | (Response rstatus rbody, st4) \<Rightarrow>
                  if rstatus \<noteq> 200 then (Inl (UpdateFailed rstatus), st4)
                  else (case rbody of
                          Inl f \<Rightarrow> (Inl (leaves_scope f), st4)
                        | Inr data \<Rightarrow> (Inr data, st4))))
        else if status \<noteq> 200 then (Inl (UpdateFailed status), st2)
        else (case body of
                Inl f \<Rightarrow> (Inl (leaves_scope f), st2)
              | Inr data \<Rightarrow> (Inr data, st2)))"

text \<open>
  The two handlers of \<open>fetch_data_from_api\<close>: \<open>asyncio.TimeoutError\<close> becomes
  \<open>PWNAPICommunicationError\<close>, every other \<open>Exception\<close> (also the \<open>UpdateFailed\<close> raised
  in the \<open>try\<close> itself) becomes \<open>PWNAPIError\<close>.
\<close>

definition fetch_data_from_api :: "server \<Rightarrow> string \<Rightarrow> client \<Rightarrow> (exn + json) \<times> client" where
  "fetch_data_from_api srv url st =
    (case try_fetch srv url st of
       (Inl (Transport TimeoutError), st') \<Rightarrow> (Inl PWNAPICommunicationError, st')
     | (Inl e, st') \<Rightarrow> (Inl (PWNAPIError e), st')
     | (Inr data, st') \<Rightarrow> (Inr data, st'))"

text \<open>
  \<open>PWNAPI.async_get_data\<close>: \<open>API_ENDPOINTS.get(endpoint)\<close>, then \<open>return None\<close> when the
  URL is missing or empty.
\<close>

definition async_get_data :: "server \<Rightarrow> string \<Rightarrow> client \<Rightarrow> (exn + json) \<times> client" where
  "async_get_data srv endpoint st =
    (case map_of API_ENDPOINTS endpoint of
       None \<Rightarrow> (Inr JNull, st)
     | Some url \<Rightarrow> if url = [] then (Inr JNull, st) else fetch_data_from_api srv url st)"

definition async_get_settings :: "server \<Rightarrow> client \<Rightarrow> (exn + json) \<times> client" where
  "async_get_settings srv st =
    (case endpoint_item ''settings'' of
       Inl e \<Rightarrow> (Inl e, st)
     | Inr name \<Rightarrow> async_get_data srv name st)"

section \<open>coordinator.py\<close>

text \<open>\<open>self.api.fetch_data_from_api(API_ENDPOINTS[name])\<close>, the subscript evaluated first.\<close>

definition fetch_item :: "server \<Rightarrow> string \<Rightarrow> client \<Rightarrow> (exn + json) \<times> client" where
  "fetch_item srv name st =
    (case endpoint_item name of
       Inl e \<Rightarrow> (Inl e, st)
     | Inr url \<Rightarrow> fetch_data_from_api srv url st)"

text \<open>
  \<open>PWNDataUpdateCoordinator._fetch_all_data\<close>. The local \<open>contact_preferences\<close> is bound
  only inside \<open>if customer_id is not None\<close>; reading it unbound, when the result dict
  is built, raises \<open>UnboundLocalError\<close>. The parameter \<open>str\<close> is Python's formatting of
  the customer id inside the f-string.
\<close>

definition fetch_all_data :: "(json \<Rightarrow> string) \<Rightarrow> server \<Rightarrow> client \<Rightarrow> (exn + json) \<times> client" where
  "fetch_all_data str srv st =
    (case fetch_item srv ''invoices_summary'' st of
       (Inl e, s1) \<Rightarrow> (Inl e, s1)
     | (Inr invoices, s1) \<Rightarrow>
    (case fetch_item srv ''relation_data'' s1 of
       (Inl e, s2) \<Rightarrow> (Inl e, s2)
     | (Inr user_data, s2) \<Rightarrow>
    (case fetch_item srv ''consumption_history'' s2 of
       (Inl e, s3) \<Rightarrow> (Inl e, s3)
     | (Inr consumption_history, s3) \<Rightarrow>
    (case fetch_item srv ''payment_info'' s3 of
       (Inl e, s4) \<Rightarrow> (Inl e, s4)
     | (Inr payment_info, s4) \<Rightarrow>
    (case fetch_item srv ''advance'' s4 of
       (Inl e, s5) \<Rightarrow> (Inl e, s5)
     | (Inr advance, s5) \<Rightarrow>
    (case fetch_item srv ''notifications'' s5 of
       (Inl e, s6) \<Rightarrow> (Inl e, s6)
     | (Inr notifications, s6) \<Rightarrow>
        if \<not> truthy invoices then (Inr (JObj []), s6)
        else if \<not> truthy user_data then (Inr (JObj []), s6)
        else if \<not> truthy consumption_history then (Inr (JObj []), s6)
        else
          (case dict_get user_data ''relationNumber'' of
             Inl e \<Rightarrow> (Inl e, s6)
           | Inr customer_id \<Rightarrow>
              (case (if customer_id \<noteq> JNull then
                       (case endpoint_item ''contact_preferences'' of
                          Inl e \<Rightarrow> (Inl e, s6)
                        | Inr base \<Rightarrow>
                           (case fetch_data_from_api srv (base @ ''/'' @ str customer_id) s6 of
                              (Inl e, s7) \<Rightarrow> (Inl e, s7)
                            | (Inr d, s7) \<Rightarrow> (Inr (Some d), s7)))
                     else (Inr None, s6)) of
                 (Inl e, s7) \<Rightarrow> (Inl e, s7)
               | (Inr None, s7) \<Rightarrow> (Inl UnboundLocalError, s7)
               | (Inr (Some contact_preferences), s7) \<Rightarrow>
                  (Inr (JObj
                     [(''invoices'', invoices),
                      (''user_data'', user_data),
                      (''consumption_history'', consumption_history),
                      (''contact_preferences'', contact_preferences),
                      (''payment_info'', payment_info),
                      (''advance'', advance),
                      (''notifications'', notifications)]), s7)))))))))"

section \<open>Observing a run\<close>

text \<open>The requests a run added to the session, and two classes of request.\<close>

definition new_requests :: "client \<Rightarrow> client \<Rightarrow> request list" where
  "new_requests st st' = drop (length (sent st)) (sent st')"

fun is_Get :: "request \<Rightarrow> bool" where
  "is_Get (Get u t) = True"
| "is_Get (Post u p) = False"

fun is_refresh :: "request \<Rightarrow> bool" where
  "is_refresh (Post u p) = (map_of p ''refresh_token'' \<noteq> None)"
| "is_refresh (Get u t) = False"

text \<open>
  Names for the intermediate states of \<open>try_fetch\<close>: after the optional login, the first
  GET, the refresh, the retried GET. Lemma \<open>try_fetch_phases\<close> ties them to the function.
\<close>

definition after_login :: "server \<Rightarrow> client \<Rightarrow> client" where
  "after_login srv st = (if \<not> is_authenticated (auth st) then snd (login srv st) else st)"

definition first_get :: "server \<Rightarrow> string \<Rightarrow> client \<Rightarrow> reply \<times> client" where
  "first_get srv url st =
    send srv (Get url (access_token (auth (after_login srv st)))) (after_login srv st)"

definition after_refresh :: "server \<Rightarrow> string \<Rightarrow> client \<Rightarrow> (exn + unit) \<times> client" where
  "after_refresh srv url st = refresh_tokens True srv (snd (first_get srv url st))"

definition retry_get :: "server \<Rightarrow> string \<Rightarrow> client \<Rightarrow> reply \<times> client" where
  "retry_get srv url st =
    send srv (Get url (access_token (auth (snd (after_refresh srv url st)))))
      (snd (after_refresh srv url st))"

fun is_auth_status :: "reply \<Rightarrow> bool" where
  "is_auth_status (Response s b) = (s = 401 \<or> s = 403)"
| "is_auth_status (Failed f) = False"

text \<open>The reply that decides the fetch: the retry's after a 401 or 403, else the first.\<close>

definition decisive_reply :: "server \<Rightarrow> string \<Rightarrow> client \<Rightarrow> reply" where
  "decisive_reply srv url st =
    (if is_auth_status (fst (first_get srv url st)) then fst (retry_get srv url st)
     else fst (first_get srv url st))"

fun final_outcome :: "reply \<Rightarrow> exn + json" where
  "final_outcome (Failed f) = Inl (leaves_scope f)"
| "final_outcome (Response s b) =
    (if s \<noteq> 200 then Inl (UpdateFailed s)
     else case b of Inl f \<Rightarrow> Inl (leaves_scope f) | Inr d \<Rightarrow> Inr d)"

text \<open>
  A failure that is a timeout: the library's \<open>asyncio.TimeoutError\<close> or an overrun. A GET
  that timed out: the call itself, or the read of a 200 reply's body.
\<close>

fun times_out :: "failure \<Rightarrow> bool" where
  "times_out (Raised e) = (e = TimeoutError)"
| "times_out Overrun = True"

fun timed_out :: "reply \<Rightarrow> bool" where
  "timed_out (Failed f) = times_out f"
| "timed_out (Response s b) = (s = 200 \<and> (case b of Inl f \<Rightarrow> times_out f | Inr d \<Rightarrow> False))"

text \<open>A call that overran: the request itself, or the read of a 200 reply's body.\<close>

fun overran :: "reply \<Rightarrow> bool" where
  "overran (Failed f) = (f = Overrun)"
| "overran (Response s b) = (s = 200 \<and> b = Inl Overrun)"

text \<open>The replies to the POST of \<open>login\<close> and of \<open>refresh_tokens\<close> in a given state.\<close>

definition login_reply :: "server \<Rightarrow> client \<Rightarrow> reply" where
  "login_reply srv st =
    srv (sent st @ [Post ''https://mijn.pwn.nl/api/auth/login'' (login_payload (auth st))])"

definition refresh_reply :: "server \<Rightarrow> client \<Rightarrow> reply" where
  "refresh_reply srv st =
    srv (sent st @ [Post ''https://mijn.pwn.nl/api/auth/login'' (refresh_payload (auth st))])"

text \<open>
  The refresh started in a state sends its POST (a refresh token is stored) and the POST,
  or the read of its body, overruns.
\<close>

definition refresh_overrun :: "server \<Rightarrow> client \<Rightarrow> bool" where
  "refresh_overrun srv st = (truthy (refresh_token (auth st)) \<and> overran (refresh_reply srv st))"

text \<open>
  A timeout inside the timeout scope of a fetch: of the first GET when that decides the
  fetch; after a 401 or 403, an overrun of the refresh or a timeout of the retried GET.
\<close>

definition fetch_timed_out :: "server \<Rightarrow> string \<Rightarrow> client \<Rightarrow> bool" where
  "fetch_timed_out srv url st =
    (if is_auth_status (fst (first_get srv url st))
     then refresh_overrun srv (snd (first_get srv url st)) \<or> timed_out (fst (retry_get srv url st))
     else timed_out (fst (first_get srv url st)))"

text \<open>
  The pair a reply makes the authenticator store: that of a 200 reply whose body parsed to
  an object, each token \<open>None\<close> when its field is missing.
\<close>

fun tokens_of_reply :: "reply \<Rightarrow> (json \<times> json) option" where
  "tokens_of_reply (Response s (Inr (JObj kvs))) =
    (if s = 200
     then Some (case map_of kvs ''accessToken'' of None \<Rightarrow> JNull | Some v \<Rightarrow> v,
                case map_of kvs ''refreshToken'' of None \<Rightarrow> JNull | Some v \<Rightarrow> v)
     else None)"
| "tokens_of_reply _ = None"

text \<open>The spec's condition: status 200 and both token fields present in the body.\<close>

fun both_tokens_present :: "reply \<Rightarrow> bool" where
  "both_tokens_present (Response s (Inr (JObj kvs))) =
    (s = 200 \<and> map_of kvs ''accessToken'' \<noteq> None \<and> map_of kvs ''refreshToken'' \<noteq> None)"
| "both_tokens_present _ = False"

subsection \<open>Concrete clients and servers\<close>

definition client_init :: "string \<Rightarrow> string \<Rightarrow> client" where
  "client_init u p = \<lparr>auth = PWNAuth_init u p, sent = []\<rparr>"

definition client_with_tokens :: "json \<Rightarrow> json \<Rightarrow> client" where
  "client_with_tokens a r =
    \<lparr>auth = \<lparr>username = ''alice'', password = ''secret'', access_token = a, refresh_token = r\<rparr>,
     sent = []\<rparr>"

text \<open>A server that answers every POST with one reply and every GET with another.\<close>

definition by_method :: "reply \<Rightarrow> reply \<Rightarrow> server" where
  "by_method p g rs =
    (case rev rs of
       [] \<Rightarrow> g
     | Post u pl # _ \<Rightarrow> p
     | Get u t # _ \<Rightarrow> g)"

definition both_tokens :: json where
  "both_tokens = JObj [(''accessToken'', JStr ''A1''), (''refreshToken'', JStr ''R1'')]"

definition access_only :: json where
  "access_only = JObj [(''accessToken'', JStr ''A1'')]"

definition summary :: json where
  "summary = JObj [(''invoicesSummary'', JObj [(''numberOfOpenItems'', JNum 2)])]"

definition invoices_url :: string where
  "invoices_url = ''https://mijn.pwn.nl/api/Invoices/summary''"

section \<open>Properties\<close>

lemma endpoint_item_login: "endpoint_item ''login'' = Inr ''https://mijn.pwn.nl/api/auth/login''"
  by (simp add: endpoint_item_def API_ENDPOINTS_def API_URL_def)

lemma endpoint_item_settings:
  "endpoint_item ''settings'' = Inr ''https://mijn.pwn.nl/assets/configs/mijn-pwn-nl/settings.json''"
  by (simp add: endpoint_item_def API_ENDPOINTS_def API_URL_def)

lemma settings_url_no_name:
  "map_of API_ENDPOINTS ''https://mijn.pwn.nl/assets/configs/mijn-pwn-nl/settings.json'' = None"
  by (simp add: API_ENDPOINTS_def)

subsection \<open>Requests sent by each step\<close>

lemma send_snd: "snd (send srv rq st) = st\<lparr>sent := sent st @ [rq]\<rparr>"
  by (simp add: send_def)

lemma login_sent:
  "sent (snd (login srv st)) =
     sent st @ [Post ''https://mijn.pwn.nl/api/auth/login'' (login_payload (auth st))]"
  by (simp add: login_def endpoint_item_login send_def Let_def
      split: reply.splits sum.splits prod.splits)

lemma refresh_sent:
  "sent (snd (refresh_tokens enc srv st)) =
    (if truthy (refresh_token (auth st))
     then sent st @ [Post ''https://mijn.pwn.nl/api/auth/login'' (refresh_payload (auth st))]
     else sent st)"
  by (simp add: refresh_tokens_def endpoint_item_login send_def Let_def
      split: reply.splits sum.splits prod.splits)

lemma dropped_True: "dropped True f = (if f = Overrun then Inl CancelledError else Inr ())"
  by (cases f) simp_all

lemma dropped_False: "dropped False f = Inr ()"
  by simp

lemma refresh_fst:
  "fst (refresh_tokens enc srv st) =
    (if enc \<and> refresh_overrun srv st then Inl CancelledError else Inr ())"
proof (cases "truthy (refresh_token (auth st))")
  case False
  then show ?thesis by (simp add: refresh_tokens_def refresh_overrun_def)
next
  case t: True
  show ?thesis
  proof (cases "refresh_reply srv st")
    case (Failed f)
    with t show ?thesis
      by (cases enc)
         (simp_all add: refresh_tokens_def endpoint_item_login send_def refresh_reply_def
            refresh_overrun_def dropped_True)
  next
    case (Response s b)
    with t show ?thesis
      by (cases enc)
         (auto simp add: refresh_tokens_def endpoint_item_login send_def refresh_reply_def
            refresh_overrun_def dropped_True Let_def split: sum.splits)
  qed
qed

lemma after_refresh_fst:
  "fst (after_refresh srv url st) =
    (if refresh_overrun srv (snd (first_get srv url st)) then Inl CancelledError else Inr ())"
  by (simp add: after_refresh_def refresh_fst)

lemma try_fetch_first:
  "try_fetch srv url st =
    (case first_get srv url st of
       (Failed f, st2) \<Rightarrow> (Inl (leaves_scope f), st2)
     | (Response status body, st2) \<Rightarrow>
        if status = 401 \<or> status = 403 then
          (case refresh_tokens True srv st2 of
             (Inl e, st3) \<Rightarrow>
               (Inl (if e = CancelledError then Transport TimeoutError else e), st3)
           | (Inr u, st3) \<Rightarrow>
              (case send srv (Get url (access_token (auth st3))) st3 of
                 (Failed f, st4) \<Rightarrow> (Inl (leaves_scope f), st4)
               | (Response rstatus rbody, st4) \<Rightarrow>
                  if rstatus \<noteq> 200 then (Inl (UpdateFailed rstatus), st4)
                  else (case rbody of
                          Inl f \<Rightarrow> (Inl (leaves_scope f), st4)
                        | Inr data \<Rightarrow> (Inr data, st4))))
        else if status \<noteq> 200 then (Inl (UpdateFailed status), st2)
        else (case body of
                Inl f \<Rightarrow> (Inl (leaves_scope f), st2)
              | Inr data \<Rightarrow> (Inr data, st2)))"
  unfolding try_fetch_def first_get_def after_login_def Let_def by (rule refl)

lemma final_outcome_pair:
  "(case send srv rq st3 of
      (Failed f, st4) \<Rightarrow> (Inl (leaves_scope f), st4)
    | (Response rstatus rbody, st4) \<Rightarrow>
       if rstatus \<noteq> 200 then (Inl (UpdateFailed rstatus), st4)
       else (case rbody of
               Inl f \<Rightarrow> (Inl (leaves_scope f), st4)
             | Inr data \<Rightarrow> (Inr data, st4))) =
   (final_outcome (fst (send srv rq st3)), snd (send srv rq st3))"
  by (simp split: prod.splits reply.splits sum.splits)

lemma try_fetch_phases:
  "try_fetch srv url st =
    (if is_auth_status (fst (first_get srv url st)) then
       (if refresh_overrun srv (snd (first_get srv url st))
        then (Inl (Transport TimeoutError), snd (after_refresh srv url st))
        else (final_outcome (fst (retry_get srv url st)), snd (retry_get srv url st)))
     else (final_outcome (fst (first_get srv url st)), snd (first_get srv url st)))"
proof -
  obtain rp st2 where fg: "first_get srv url st = (rp, st2)"
    by (cases "first_get srv url st")
  obtain r st3 where ar: "refresh_tokens True srv st2 = (r, st3)"
    by (cases "refresh_tokens True srv st2")
  have rf: "r = (if refresh_overrun srv st2 then Inl CancelledError else Inr ())"
    using refresh_fst [of True srv st2] ar by simp
  show ?thesis
  proof (cases rp)
    case (Failed f)
    with fg show ?thesis by (simp add: try_fetch_first)
  next
    case (Response s b)
    show ?thesis
    proof (cases "s = 401 \<or> s = 403")
      case False
      with Response fg show ?thesis
        by (simp add: try_fetch_first split: sum.splits)
    next
      case True
      with Response fg ar rf show ?thesis
        by (simp add: try_fetch_first final_outcome_pair after_refresh_def retry_get_def)
    qed
  qed
qed

lemma fetch_snd: "snd (fetch_data_from_api srv url st) = snd (try_fetch srv url st)"
  by (simp add: fetch_data_from_api_def
      split: prod.splits sum.splits exn.splits transport_error.splits)

lemma fetch_fst:
  "fst (fetch_data_from_api srv url st) =
    (case fst (try_fetch srv url st) of
       Inl (Transport TimeoutError) \<Rightarrow> Inl PWNAPICommunicationError
     | Inl e \<Rightarrow> Inl (PWNAPIError e)
     | Inr d \<Rightarrow> Inr d)"
  by (simp add: fetch_data_from_api_def
      split: prod.splits sum.splits exn.splits transport_error.splits)

lemma try_fetch_fst:
  "fst (try_fetch srv url st) =
    (if is_auth_status (fst (first_get srv url st)) \<and>
        refresh_overrun srv (snd (first_get srv url st))
     then Inl (Transport TimeoutError)
     else final_outcome (decisive_reply srv url st))"
  by (simp add: try_fetch_phases decisive_reply_def)

lemma after_login_sent:
  "sent (after_login srv st) =
    (if is_authenticated (auth st) then sent st
     else sent st @ [Post ''https://mijn.pwn.nl/api/auth/login'' (login_payload (auth st))])"
  by (simp add: after_login_def login_sent)

lemma first_get_sent:
  "sent (snd (first_get srv url st)) =
     sent (after_login srv st) @ [Get url (access_token (auth (after_login srv st)))]"
  by (simp add: first_get_def send_snd)

lemma after_refresh_sent:
  "sent (snd (after_refresh srv url st)) =
     sent (snd (first_get srv url st)) @
     (if truthy (refresh_token (auth (snd (first_get srv url st))))
      then [Post ''https://mijn.pwn.nl/api/auth/login''
              (refresh_payload (auth (snd (first_get srv url st))))]
      else [])"
  by (simp add: after_refresh_def refresh_sent)

lemma retry_get_sent:
  "sent (snd (retry_get srv url st)) =
     sent (snd (after_refresh srv url st)) @
       [Get url (access_token (auth (snd (after_refresh srv url st))))]"
  by (simp add: retry_get_def send_snd)

lemma try_fetch_sent_after_auth_status:
  "is_auth_status (fst (first_get srv url st)) \<Longrightarrow>
   sent (snd (try_fetch srv url st)) =
     sent (snd (first_get srv url st)) @
     (if truthy (refresh_token (auth (snd (first_get srv url st))))
      then [Post ''https://mijn.pwn.nl/api/auth/login''
              (refresh_payload (auth (snd (first_get srv url st))))]
      else []) @
     (if refresh_overrun srv (snd (first_get srv url st)) then []
      else [Get url (access_token (auth (snd (after_refresh srv url st))))])"
  by (simp add: try_fetch_phases retry_get_sent after_refresh_sent)

lemma try_fetch_sent:
  "\<exists>new. sent (snd (try_fetch srv url st)) = sent st @ new \<and>
     length (filter is_Get new) \<le> 2 \<and> length (filter is_refresh new) \<le> 1"
proof -
  obtain l where l: "sent (after_login srv st) = sent st @ l"
     "filter is_Get l = []" "filter is_refresh l = []"
    by (cases "is_authenticated (auth st)") (simp_all add: after_login_sent login_payload_def)
  let ?g = "Get url (access_token (auth (after_login srv st)))"
  show ?thesis
  proof (cases "is_auth_status (fst (first_get srv url st))")
    case True
    let ?r = "if truthy (refresh_token (auth (snd (first_get srv url st))))
      then [Post ''https://mijn.pwn.nl/api/auth/login''
              (refresh_payload (auth (snd (first_get srv url st))))]
      else []"
    let ?t = "if refresh_overrun srv (snd (first_get srv url st)) then []
      else [Get url (access_token (auth (snd (after_refresh srv url st))))]"
    let ?new = "l @ [?g] @ ?r @ ?t"
    from True have "sent (snd (try_fetch srv url st)) = sent st @ ?new"
      by (simp add: try_fetch_sent_after_auth_status first_get_sent l)
    moreover have "length (filter is_Get ?new) \<le> 2" by (simp add: l)
    moreover have "length (filter is_refresh ?new) \<le> 1" by (simp add: l)
    ultimately show ?thesis by blast
  next
    case False
    let ?new = "l @ [?g]"
    from False have "sent (snd (try_fetch srv url st)) = sent st @ ?new"
      by (simp add: try_fetch_phases first_get_sent l)
    moreover have "length (filter is_Get ?new) \<le> 2" by (simp add: l)
    moreover have "length (filter is_refresh ?new) \<le> 1" by (simp add: l)
    ultimately show ?thesis by blast
  qed
qed

text \<open>
  C1. Every call of \<open>fetch_data_from_api\<close> only appends to the session's requests, and
  among the requests it adds there are at most two GETs (the first and the single retry)
  and at most one refresh POST, whatever the server answers.
\<close>

theorem fetch_at_most_one_retry:
  "sent (snd (fetch_data_from_api srv url st)) =
     sent st @ new_requests st (snd (fetch_data_from_api srv url st)) \<and>
   length (filter is_Get (new_requests st (snd (fetch_data_from_api srv url st)))) \<le> 2 \<and>
   length (filter is_refresh (new_requests st (snd (fetch_data_from_api srv url st)))) \<le> 1"
proof -
  obtain new where new: "sent (snd (try_fetch srv url st)) = sent st @ new"
    "length (filter is_Get new) \<le> 2" "length (filter is_refresh new) \<le> 1"
    using try_fetch_sent by blast
  then have "new_requests st (snd (fetch_data_from_api srv url st)) = new"
    by (simp add: new_requests_def fetch_snd)
  with new show ?thesis by (simp add: fetch_snd)
qed

text \<open>
  C2 (as the claim states it, refuted). With a token held, a server that answers 401 to
  the first GET and to the retry makes the fetch end in the generic \<open>PWNAPIError\<close> raised
  from \<open>UpdateFailed\<close>, not in \<open>PWNAPIAuthenticationError\<close>.
\<close>

theorem fetch_retry_401_not_auth_error:
  "fst (fetch_data_from_api
          (by_method (Response 200 (Inr both_tokens)) (Response 401 (Inr JNull)))
          invoices_url (client_with_tokens (JStr ''A0'') (JStr ''R0'')))
     = Inl (PWNAPIError (UpdateFailed 401)) \<and>
   fst (fetch_data_from_api
          (by_method (Response 200 (Inr both_tokens)) (Response 401 (Inr JNull)))
          invoices_url (client_with_tokens (JStr ''A0'') (JStr ''R0'')))
     \<noteq> Inl PWNAPIAuthenticationError"
  by (simp add: fetch_fst try_fetch_fst decisive_reply_def refresh_overrun_def refresh_reply_def
      first_get_def retry_get_def after_refresh_def after_login_def is_authenticated_def
      client_with_tokens_def send_def by_method_def both_tokens_def)

text \<open>
  C2 (amended). For every fetch whose first GET is answered 401 or 403: \<open>refresh_tokens\<close>
  is called once (it sends one refresh POST when a refresh token is stored, none
  otherwise) and its outcome is not inspected. Unless the fetch's timeout scope runs out
  during the refresh (then no retry is sent and the fetch fails with the timeout
  condition), the GET is retried exactly once, with the access token then stored, whether
  or not the refresh succeeded. The fetch never propagates \<open>PWNAPIAuthenticationError\<close>:
  when the retried GET is answered with a status other than 200 the code raises
  \<open>UpdateFailed\<close> with that status and the fetch fails; when it is answered 200 with a
  body, the fetch returns the body.
\<close>

theorem fetch_after_auth_status:
  "is_auth_status (fst (first_get srv url st)) \<Longrightarrow>
     sent (snd (fetch_data_from_api srv url st)) =
       sent (snd (first_get srv url st)) @
       (if truthy (refresh_token (auth (snd (first_get srv url st))))
        then [Post ''https://mijn.pwn.nl/api/auth/login''
                (refresh_payload (auth (snd (first_get srv url st))))]
        else []) @
       (if refresh_overrun srv (snd (first_get srv url st)) then []
        else [Get url (access_token (auth (snd (after_refresh srv url st))))]) \<and>
     fst (fetch_data_from_api srv url st) \<noteq> Inl PWNAPIAuthenticationError \<and>
     (refresh_overrun srv (snd (first_get srv url st)) \<longrightarrow>
        fst (fetch_data_from_api srv url st) = Inl PWNAPICommunicationError) \<and>
     (\<forall>s b. \<not> refresh_overrun srv (snd (first_get srv url st)) \<and>
            fst (retry_get srv url st) = Response s b \<and> s \<noteq> 200 \<longrightarrow>
        fst (try_fetch srv url st) = Inl (UpdateFailed s) \<and>
        isl (fst (fetch_data_from_api srv url st))) \<and>
     (\<forall>d. \<not> refresh_overrun srv (snd (first_get srv url st)) \<and>
          fst (retry_get srv url st) = Response 200 (Inr d) \<longrightarrow>
        fst (fetch_data_from_api srv url st) = Inr d)"
proof -
  assume a: "is_auth_status (fst (first_get srv url st))"
  have s: "sent (snd (fetch_data_from_api srv url st)) =
       sent (snd (first_get srv url st)) @
       (if truthy (refresh_token (auth (snd (first_get srv url st))))
        then [Post ''https://mijn.pwn.nl/api/auth/login''
                (refresh_payload (auth (snd (first_get srv url st))))]
        else []) @
       (if refresh_overrun srv (snd (first_get srv url st)) then []
        else [Get url (access_token (auth (snd (after_refresh srv url st))))])"
    using try_fetch_sent_after_auth_status [OF a] by (simp add: fetch_snd)
  have n: "fst (fetch_data_from_api srv url st) \<noteq> Inl PWNAPIAuthenticationError"
    by (simp add: fetch_fst split: sum.splits exn.splits transport_error.splits)
  have o: "refresh_overrun srv (snd (first_get srv url st)) \<longrightarrow>
        fst (fetch_data_from_api srv url st) = Inl PWNAPICommunicationError"
    using a by (simp add: fetch_fst try_fetch_fst)
  have f: "\<forall>s b. \<not> refresh_overrun srv (snd (first_get srv url st)) \<and>
            fst (retry_get srv url st) = Response s b \<and> s \<noteq> 200 \<longrightarrow>
        fst (try_fetch srv url st) = Inl (UpdateFailed s) \<and>
        isl (fst (fetch_data_from_api srv url st))"
    using a by (simp add: fetch_fst try_fetch_fst decisive_reply_def)
  have d: "\<forall>d. \<not> refresh_overrun srv (snd (first_get srv url st)) \<and>
          fst (retry_get srv url st) = Response 200 (Inr d) \<longrightarrow>
        fst (fetch_data_from_api srv url st) = Inr d"
    using a by (simp add: fetch_fst try_fetch_fst decisive_reply_def)
  from s n o f d show ?thesis by blast
qed

theorem fetch_after_auth_status_witness:
  "is_auth_status (fst (first_get
      (by_method (Response 401 (Inr JNull)) (Response 401 (Inr JNull)))
      invoices_url (client_with_tokens (JStr ''A0'') (JStr ''R0'')))) \<and>
   sent (snd (fetch_data_from_api
      (by_method (Response 401 (Inr JNull)) (Response 401 (Inr JNull)))
      invoices_url (client_with_tokens (JStr ''A0'') (JStr ''R0'')))) =
     [Get invoices_url (JStr ''A0''),
      Post ''https://mijn.pwn.nl/api/auth/login''
        [(''user'', JStr ''alice''), (''password'', JStr ''secret''),
         (''refresh_token'', JStr ''R0'')],
      Get invoices_url (JStr ''A0'')] \<and>
   fst (try_fetch
      (by_method (Response 401 (Inr JNull)) (Response 401 (Inr JNull)))
      invoices_url (client_with_tokens (JStr ''A0'') (JStr ''R0''))) = Inl (UpdateFailed 401) \<and>
   isl (fst (fetch_data_from_api
      (by_method (Response 401 (Inr JNull)) (Response 401 (Inr JNull)))
      invoices_url (client_with_tokens (JStr ''A0'') (JStr ''R0''))))"
proof -
  let ?srv = "by_method (Response 401 (Inr JNull)) (Response 401 (Inr JNull))"
  let ?st = "client_with_tokens (JStr ''A0'') (JStr ''R0'')"
  have h: "is_auth_status (fst (first_get ?srv invoices_url ?st))"
    by (simp add: first_get_def send_def by_method_def)
  have fg: "snd (first_get ?srv invoices_url ?st) =
      ?st\<lparr>sent := [Get invoices_url (JStr ''A0'')]\<rparr>"
    by (simp add: first_get_def send_def after_login_def is_authenticated_def
        client_with_tokens_def)
  have no: "\<not> refresh_overrun ?srv (snd (first_get ?srv invoices_url ?st))"
    by (simp add: refresh_overrun_def refresh_reply_def by_method_def)
  have ar: "auth (snd (after_refresh ?srv invoices_url ?st)) = auth ?st"
    unfolding after_refresh_def fg
    by (simp add: refresh_tokens_def endpoint_item_login send_def by_method_def
        client_with_tokens_def)
  have r: "fst (retry_get ?srv invoices_url ?st) = Response 401 (Inr JNull)"
    by (simp add: retry_get_def send_def by_method_def)
  note t = fetch_after_auth_status [OF h]
  from t have "sent (snd (fetch_data_from_api ?srv invoices_url ?st)) =
     [Get invoices_url (JStr ''A0''),
      Post ''https://mijn.pwn.nl/api/auth/login''
        [(''user'', JStr ''alice''), (''password'', JStr ''secret''),
         (''refresh_token'', JStr ''R0'')],
      Get invoices_url (JStr ''A0'')]"
    using no unfolding ar fg by (simp add: client_with_tokens_def refresh_payload_def)
  moreover from t no r
  have "fst (try_fetch ?srv invoices_url ?st) = Inl (UpdateFailed 401) \<and>
        isl (fst (fetch_data_from_api ?srv invoices_url ?st))"
    by fastforce
  ultimately show ?thesis using h by simp
qed

lemma first_get_new_requests:
  assumes "\<not> is_authenticated (auth st)"
  shows "take 2 (drop (length (sent st)) (sent (snd (try_fetch srv url st)))) =
     [Post ''https://mijn.pwn.nl/api/auth/login'' (login_payload (auth st)),
      Get url (access_token (auth (snd (login srv st))))]"
proof -
  let ?two = "[Post ''https://mijn.pwn.nl/api/auth/login'' (login_payload (auth st)),
      Get url (access_token (auth (snd (login srv st))))]"
  have one: "sent (snd (first_get srv url st)) = sent st @ ?two"
    using assms by (simp add: first_get_sent after_login_def login_sent)
  have "\<exists>rest. sent (snd (try_fetch srv url st)) = sent st @ ?two @ rest"
  proof (cases "is_auth_status (fst (first_get srv url st))")
    case True
    from try_fetch_sent_after_auth_status [OF True] show ?thesis
      by (simp add: one)
  next
    case False
    then show ?thesis by (simp add: try_fetch_phases one)
  qed
  then show ?thesis by auto
qed

text \<open>
  C3 (as the claim states it, refuted). With no token held and a login answered 401, the
  fetch still sends the GET (its header formed from the absent token) and returns the
  body the server gives: no authentication error is raised.
\<close>

theorem fetch_after_failed_login_sends_get:
  "fst (fetch_data_from_api
          (by_method (Response 401 (Inr JNull)) (Response 200 (Inr summary)))
          invoices_url (client_init ''alice'' ''secret'')) = Inr summary \<and>
   sent (snd (fetch_data_from_api
          (by_method (Response 401 (Inr JNull)) (Response 200 (Inr summary)))
          invoices_url (client_init ''alice'' ''secret''))) =
     [Post ''https://mijn.pwn.nl/api/auth/login''
        [(''user'', JStr ''alice''), (''password'', JStr ''secret'')],
      Get invoices_url JNull]"
  by (simp add: fetch_fst fetch_snd try_fetch_phases decisive_reply_def first_get_def
      after_login_def is_authenticated_def client_init_def PWNAuth_init_def send_def
      by_method_def login_def endpoint_item_login login_payload_def)

text \<open>
  C3 (amended). When no access token is held, the first request of a fetch is the login
  POST and the second is the GET to the data endpoint, sent whether or not the login
  succeeded, with the header formed from whatever access token the login left.
\<close>

theorem fetch_login_then_get:
  "\<not> is_authenticated (auth st) \<Longrightarrow>
   take 2 (new_requests st (snd (fetch_data_from_api srv url st))) =
     [Post ''https://mijn.pwn.nl/api/auth/login'' (login_payload (auth st)),
      Get url (access_token (auth (snd (login srv st))))]"
  by (simp add: new_requests_def fetch_snd first_get_new_requests)

theorem fetch_login_then_get_witness:
  "\<not> is_authenticated (auth (client_init ''alice'' ''secret'')) \<and>
   take 2 (new_requests (client_init ''alice'' ''secret'')
     (snd (fetch_data_from_api
        (by_method (Response 401 (Inr JNull)) (Response 200 (Inr summary)))
        invoices_url (client_init ''alice'' ''secret'')))) =
     [Post ''https://mijn.pwn.nl/api/auth/login''
        [(''user'', JStr ''alice''), (''password'', JStr ''secret'')],
      Get invoices_url JNull]"
proof -
  have h: "\<not> is_authenticated (auth (client_init ''alice'' ''secret''))"
    by (simp add: is_authenticated_def client_init_def PWNAuth_init_def)
  from fetch_login_then_get [OF h,
      of "by_method (Response 401 (Inr JNull)) (Response 200 (Inr summary))" invoices_url]
  show ?thesis
    using h
    by (simp add: login_def endpoint_item_login send_def by_method_def login_payload_def
        client_init_def PWNAuth_init_def)
qed

text \<open>
  C4 (as the claim states it, refuted). With no token held, a login POST that times out
  is not surfaced: the fetch goes on to the GET and returns its body.
\<close>

theorem fetch_login_timeout_not_surfaced:
  "fst (fetch_data_from_api
          (by_method (Raise TimeoutError) (Response 200 (Inr summary)))
          invoices_url (client_init ''alice'' ''secret'')) = Inr summary"
  by (simp add: fetch_fst try_fetch_fst decisive_reply_def first_get_def
      after_login_def is_authenticated_def client_init_def PWNAuth_init_def send_def
      by_method_def login_def endpoint_item_login login_payload_def)

text \<open>
  C4 (amended). A fetch ends in \<open>PWNAPICommunicationError\<close> exactly when a timeout
  happens inside its own timeout scope: the GET that decides it (the first, or the retry
  after a 401 or 403) times out, in the call or in the read of its body, or the scope
  runs out during the token refresh. A deciding GET answered with a status other than 200
  makes the code raise \<open>UpdateFailed\<close>, and the fetch ends in an error that is not
  \<open>PWNAPICommunicationError\<close>. Timeouts of the login POST, and an
  \<open>asyncio.TimeoutError\<close> raised inside \<open>refresh_tokens\<close>, are handled there and not
  surfaced.
\<close>

theorem fetch_timeout_distinct:
  "(fst (fetch_data_from_api srv url st) = Inl PWNAPICommunicationError)
      = fetch_timed_out srv url st \<and>
   (\<forall>s b. \<not> fetch_timed_out srv url st \<and>
          decisive_reply srv url st = Response s b \<and> s \<noteq> 200 \<longrightarrow>
      fst (try_fetch srv url st) = Inl (UpdateFailed s) \<and>
      isl (fst (fetch_data_from_api srv url st)) \<and>
      fst (fetch_data_from_api srv url st) \<noteq> Inl PWNAPICommunicationError)"
proof -
  have lt: "\<And>f. (leaves_scope f = Transport TimeoutError) = times_out f"
    by (case_tac f) simp_all
  have fo: "\<And>rp. (final_outcome rp = Inl (Transport TimeoutError)) = timed_out rp"
    by (case_tac rp) (auto simp add: lt split: sum.splits)
  have cm: "(fst (fetch_data_from_api srv url st) = Inl PWNAPICommunicationError) =
      (fst (try_fetch srv url st) = Inl (Transport TimeoutError))"
    by (simp add: fetch_fst split: sum.splits exn.splits transport_error.splits)
  have i: "(fst (fetch_data_from_api srv url st) = Inl PWNAPICommunicationError)
      = fetch_timed_out srv url st"
    by (simp add: cm try_fetch_fst fetch_timed_out_def decisive_reply_def fo)
  have ii: "\<forall>s b. \<not> fetch_timed_out srv url st \<and>
          decisive_reply srv url st = Response s b \<and> s \<noteq> 200 \<longrightarrow>
      fst (try_fetch srv url st) = Inl (UpdateFailed s) \<and>
      isl (fst (fetch_data_from_api srv url st)) \<and>
      fst (fetch_data_from_api srv url st) \<noteq> Inl PWNAPICommunicationError"
    by (auto simp add: fetch_fst try_fetch_fst fetch_timed_out_def)
  from i ii show ?thesis by blast
qed

theorem fetch_timeout_distinct_witness:
  "fetch_timed_out (by_method (Failed Overrun) (Response 401 (Inr JNull)))
      invoices_url (client_with_tokens (JStr ''A0'') (JStr ''R0'')) \<and>
   fst (fetch_data_from_api (by_method (Failed Overrun) (Response 401 (Inr JNull)))
      invoices_url (client_with_tokens (JStr ''A0'') (JStr ''R0'')))
     = Inl PWNAPICommunicationError \<and>
   \<not> fetch_timed_out (by_method (Response 200 (Inr both_tokens)) (Response 500 (Inr JNull)))
      invoices_url (client_with_tokens (JStr ''A0'') (JStr ''R0'')) \<and>
   decisive_reply (by_method (Response 200 (Inr both_tokens)) (Response 500 (Inr JNull)))
      invoices_url (client_with_tokens (JStr ''A0'') (JStr ''R0'')) = Response 500 (Inr JNull) \<and>
   fst (try_fetch (by_method (Response 200 (Inr both_tokens)) (Response 500 (Inr JNull)))
      invoices_url (client_with_tokens (JStr ''A0'') (JStr ''R0''))) = Inl (UpdateFailed 500) \<and>
   fst (fetch_data_from_api (by_method (Response 200 (Inr both_tokens)) (Response 500 (Inr JNull)))
      invoices_url (client_with_tokens (JStr ''A0'') (JStr ''R0'')))
     \<noteq> Inl PWNAPICommunicationError"
proof -
  let ?late = "by_method (Failed Overrun) (Response 401 (Inr JNull))"
  let ?bad = "by_method (Response 200 (Inr both_tokens)) (Response 500 (Inr JNull))"
  let ?st = "client_with_tokens (JStr ''A0'') (JStr ''R0'')"
  have t: "fetch_timed_out ?late invoices_url ?st"
    by (simp add: fetch_timed_out_def first_get_def after_login_def is_authenticated_def
        refresh_overrun_def refresh_reply_def client_with_tokens_def send_def by_method_def)
  have d: "decisive_reply ?bad invoices_url ?st = Response 500 (Inr JNull)"
    by (simp add: decisive_reply_def first_get_def send_def by_method_def)
  have n: "\<not> fetch_timed_out ?bad invoices_url ?st"
    by (simp add: fetch_timed_out_def first_get_def send_def by_method_def)
  from fetch_timeout_distinct [of ?late invoices_url ?st] t
  have 1: "fst (fetch_data_from_api ?late invoices_url ?st) = Inl PWNAPICommunicationError"
    by blast
  from fetch_timeout_distinct [of ?bad invoices_url ?st] n d
  have 2: "fst (try_fetch ?bad invoices_url ?st) = Inl (UpdateFailed 500) \<and>
      fst (fetch_data_from_api ?bad invoices_url ?st) \<noteq> Inl PWNAPICommunicationError"
    by fastforce
  from t 1 n d 2 show ?thesis by blast
qed

subsection \<open>Tokens stored by login and refresh\<close>

lemma tokens_of_reply_200:
  "tokens_of_reply (Response 200 (Inr j)) =
    (case dict_get j ''accessToken'' of
       Inl e \<Rightarrow> None
     | Inr a \<Rightarrow> (case dict_get j ''refreshToken'' of Inl e \<Rightarrow> None | Inr r \<Rightarrow> Some (a, r)))"
  by (cases j) simp_all

lemma tokens_of_reply_other:
  "s \<noteq> 200 \<Longrightarrow> tokens_of_reply (Response s b) = None"
  "tokens_of_reply (Response s (Inl e)) = None"
  by (cases "(Response s b)" rule: tokens_of_reply.cases; simp)+

lemma dict_get_both: "dict_get j k = Inr a \<Longrightarrow> dict_get j k' = Inl e \<Longrightarrow> False"
  by (cases j) simp_all

lemma login_auth:
  "auth (snd (login srv st)) =
    (case tokens_of_reply (login_reply srv st) of
       None \<Rightarrow> auth st
     | Some (a, r) \<Rightarrow> (auth st)\<lparr>access_token := a, refresh_token := r\<rparr>)"
proof (cases "login_reply srv st")
  case (Failed f)
  then show ?thesis
    by (simp add: login_def endpoint_item_login send_def login_reply_def)
next
  case (Response s b)
  show ?thesis
  proof (cases "s = 200")
    case False
    with Response show ?thesis
      by (simp add: login_def endpoint_item_login send_def login_reply_def tokens_of_reply_other)
  next
    case True
    show ?thesis
    proof (cases b)
      case (Inl e)
      with Response True show ?thesis
        by (simp add: login_def endpoint_item_login send_def login_reply_def)
    next
      case (Inr j)
      with Response True show ?thesis
        by (auto simp add: login_def endpoint_item_login send_def login_reply_def
            tokens_of_reply_200 Let_def split: sum.splits dest: dict_get_both)
    qed
  qed
qed

lemma refresh_auth:
  "auth (snd (refresh_tokens enc srv st)) =
    (if truthy (refresh_token (auth st)) then
       (case tokens_of_reply (refresh_reply srv st) of
          None \<Rightarrow> auth st
        | Some (a, r) \<Rightarrow> (auth st)\<lparr>access_token := a, refresh_token := r\<rparr>)
     else auth st)"
proof (cases "truthy (refresh_token (auth st))")
  case False
  then show ?thesis by (simp add: refresh_tokens_def)
next
  case t: True
  show ?thesis
  proof (cases "refresh_reply srv st")
    case (Failed f)
    with t show ?thesis
      by (simp add: refresh_tokens_def endpoint_item_login send_def refresh_reply_def)
  next
    case (Response s b)
    show ?thesis
    proof (cases "s = 200")
      case False
      with t Response show ?thesis
        by (simp add: refresh_tokens_def endpoint_item_login send_def refresh_reply_def
            tokens_of_reply_other)
    next
      case True
      show ?thesis
      proof (cases b)
        case (Inl e)
        with t Response True show ?thesis
          by (simp add: refresh_tokens_def endpoint_item_login send_def refresh_reply_def)
      next
        case (Inr j)
        with t Response True show ?thesis
          by (auto simp add: refresh_tokens_def endpoint_item_login send_def refresh_reply_def
              tokens_of_reply_200 Let_def split: sum.splits dest: dict_get_both)
      qed
    qed
  qed
qed

text \<open>
  C5 (as the claim states it, refuted). A login answered 200 with only the \<open>accessToken\<close>
  field leaves the client authenticated although not both token fields are present.
\<close>

theorem login_access_only_authenticated:
  "is_authenticated (auth (snd (login (by_method (Response 200 (Inr access_only)) (Raise ClientError))
        (client_init ''alice'' ''secret'')))) \<and>
   \<not> both_tokens_present (login_reply (by_method (Response 200 (Inr access_only)) (Raise ClientError))
        (client_init ''alice'' ''secret''))"
  by (simp add: login_auth login_reply_def by_method_def access_only_def is_authenticated_def)

text \<open>
  C5 (amended). Starting with no access token held, \<open>login\<close> followed by
  \<open>is_authenticated\<close> gives true exactly when the login endpoint answered 200 with a
  JSON object whose \<open>accessToken\<close> is a truthy value (for a string: non-empty). The
  \<open>refreshToken\<close> field plays no part.
\<close>

theorem login_then_is_authenticated:
  "\<not> is_authenticated (auth st) \<Longrightarrow>
   is_authenticated (auth (snd (login srv st))) =
     (case tokens_of_reply (login_reply srv st) of
        None \<Rightarrow> False
      | Some (a, r) \<Rightarrow> truthy a)"
  by (simp add: login_auth is_authenticated_def split: option.splits)

theorem login_then_is_authenticated_witness:
  "\<not> is_authenticated (auth (client_init ''alice'' ''secret'')) \<and>
   is_authenticated (auth (snd (login (by_method (Response 200 (Inr both_tokens)) (Raise ClientError))
        (client_init ''alice'' ''secret''))))"
proof -
  have h: "\<not> is_authenticated (auth (client_init ''alice'' ''secret''))"
    by (simp add: is_authenticated_def client_init_def PWNAuth_init_def)
  from login_then_is_authenticated [OF h,
      of "by_method (Response 200 (Inr both_tokens)) (Raise ClientError)"]
  show ?thesis
    using h by (simp add: login_reply_def by_method_def both_tokens_def)
qed

text \<open>
  C6 (as the claim states it, refuted). With tokens \<open>A0\<close> and \<open>R0\<close> stored, a login
  answered 200 with only the \<open>accessToken\<close> field replaces the access token by the
  response's value and the refresh token by \<open>None\<close>: the refresh token has changed, and
  not to a value present in the response.
\<close>

theorem login_access_only_partial_update:
  "access_token (auth (snd (login (by_method (Response 200 (Inr access_only)) (Raise ClientError))
        (client_with_tokens (JStr ''A0'') (JStr ''R0''))))) = JStr ''A1'' \<and>
   refresh_token (auth (snd (login (by_method (Response 200 (Inr access_only)) (Raise ClientError))
        (client_with_tokens (JStr ''A0'') (JStr ''R0''))))) = JNull"
  by (simp add: login_auth login_reply_def by_method_def access_only_def client_with_tokens_def)

text \<open>
  C6 (amended). For every login or refresh response: either it is a 200 whose body is a
  JSON object, and both stored tokens are overwritten together by the body's
  \<open>accessToken\<close> and \<open>refreshToken\<close> (each \<open>None\<close> when its field is missing), or
  neither stored token changes. Credentials never change. For \<open>refresh_tokens\<close> this
  holds inside and outside a caller's timeout scope.
\<close>

theorem tokens_updated_together:
  "auth (snd (login srv st)) =
    (case tokens_of_reply (login_reply srv st) of
       None \<Rightarrow> auth st
     | Some (a, r) \<Rightarrow> (auth st)\<lparr>access_token := a, refresh_token := r\<rparr>) \<and>
   auth (snd (refresh_tokens enc srv st)) =
    (if truthy (refresh_token (auth st)) then
       (case tokens_of_reply (refresh_reply srv st) of
          None \<Rightarrow> auth st
        | Some (a, r) \<Rightarrow> (auth st)\<lparr>access_token := a, refresh_token := r\<rparr>)
     else auth st)"
  using login_auth refresh_auth by simp

text \<open>
  C7 (as the claim states it, refuted). For a name that is not in the catalog,
  \<open>async_get_data\<close> does not raise: it returns \<open>None\<close>.
\<close>

theorem async_get_data_unknown_no_error:
  "\<not> isl (fst (async_get_data (by_method (Raise ClientError) (Raise ClientError))
        ''no_such_endpoint'' (client_init ''alice'' ''secret'')))"
  by (simp add: async_get_data_def API_ENDPOINTS_def)

text \<open>
  C7 (amended). For every endpoint name not present in the catalog, \<open>async_get_data\<close>
  returns \<open>None\<close> at once, without raising and without any network call: the client
  state, with the requests sent, is unchanged.
\<close>

theorem async_get_data_unknown:
  "map_of API_ENDPOINTS name = None \<Longrightarrow> async_get_data srv name st = (Inr JNull, st)"
  by (simp add: async_get_data_def)

theorem async_get_data_unknown_witness:
  "map_of API_ENDPOINTS ''no_such_endpoint'' = None \<and>
   async_get_data (by_method (Raise ClientError) (Raise ClientError)) ''no_such_endpoint''
      (client_init ''alice'' ''secret'') = (Inr JNull, client_init ''alice'' ''secret'')"
proof -
  have h: "map_of API_ENDPOINTS ''no_such_endpoint'' = None"
    by (simp add: API_ENDPOINTS_def)
  from async_get_data_unknown [OF h] show ?thesis using h by simp
qed

text \<open>
  C8. Whenever no refresh token is stored (the stored value is \<open>None\<close>, or any falsy
  value), \<open>refresh_tokens\<close> returns at once, inside and outside a caller's timeout
  scope: no request is sent and the stored tokens are unchanged. The variant of auth.py
  reports the failure by returning \<open>False\<close>.
\<close>

theorem refresh_without_token:
  "\<not> truthy (refresh_token (auth st)) \<Longrightarrow>
     refresh_tokens enc srv st = (Inr (), st) \<and>
     sync_refresh_tokens srv u st = (Inr False, st)"
  by (simp add: refresh_tokens_def sync_refresh_tokens_def)

theorem refresh_without_token_witness:
  "\<not> truthy (refresh_token (auth (client_init ''alice'' ''secret''))) \<and>
   refresh_tokens True (by_method (Response 200 (Inr both_tokens)) (Raise ClientError))
      (client_init ''alice'' ''secret'') = (Inr (), client_init ''alice'' ''secret'') \<and>
   sync_refresh_tokens (by_method (Response 200 (Inr both_tokens)) (Raise ClientError))
      ''https://mijn.pwn.nl/api/auth/login'' (client_init ''alice'' ''secret'')
     = (Inr False, client_init ''alice'' ''secret'')"
proof -
  have h: "\<not> truthy (refresh_token (auth (client_init ''alice'' ''secret'')))"
    by (simp add: client_init_def PWNAuth_init_def)
  from refresh_without_token [OF h] show ?thesis using h by simp
qed

lemma fetch_ok_200:
  "fetch_data_from_api (by_method p (Response 200 (Inr d))) url st =
     (Inr d, snd (fetch_data_from_api (by_method p (Response 200 (Inr d))) url st))"
proof -
  have "fst (fetch_data_from_api (by_method p (Response 200 (Inr d))) url st) = Inr d"
    by (simp add: fetch_fst try_fetch_fst decisive_reply_def first_get_def send_def
        by_method_def)
  then show ?thesis by (metis prod.collapse)
qed

lemma fetch_item_ok_200:
  "map_of API_ENDPOINTS name = Some url \<Longrightarrow>
   fetch_item (by_method p (Response 200 (Inr d))) name st =
     (Inr d, snd (fetch_data_from_api (by_method p (Response 200 (Inr d))) url st))"
  using fetch_ok_200 [of p d url st] by (simp add: fetch_item_def endpoint_item_def)

lemma catalog_names:
  "map_of API_ENDPOINTS ''invoices_summary'' = Some ''https://mijn.pwn.nl/api/Invoices/summary''"
  "map_of API_ENDPOINTS ''relation_data'' = Some ''https://mijn.pwn.nl/api/Customer/relation-data''"
  "map_of API_ENDPOINTS ''consumption_history'' =
     Some ''https://mijn.pwn.nl/api/connection/consumption-history/dashboard''"
  "map_of API_ENDPOINTS ''payment_info'' = Some ''https://mijn.pwn.nl/api/PaymentInfo''"
  "map_of API_ENDPOINTS ''advance'' = Some ''https://mijn.pwn.nl/api/advance''"
  "map_of API_ENDPOINTS ''notifications'' = Some ''https://mijn.pwn.nl/api/Notifications''"
  by (simp_all add: API_ENDPOINTS_def API_URL_def)

text \<open>
  C9. With every GET answered 200 and a relation-data body that is a non-empty object
  without a \<open>relationNumber\<close> key, \<open>_fetch_all_data\<close> does not build its result mapping:
  reading the unbound \<open>contact_preferences\<close> raises \<open>UnboundLocalError\<close>.
\<close>

theorem fetch_all_data_no_customer_id:
  "fst (fetch_all_data str (by_method (Response 200 (Inr both_tokens)) (Response 200 (Inr summary)))
         (client_init ''alice'' ''secret'')) = Inl UnboundLocalError"
  by (simp add: fetch_all_data_def fetch_item_ok_200 [OF catalog_names(1)]
      fetch_item_ok_200 [OF catalog_names(2)] fetch_item_ok_200 [OF catalog_names(3)]
      fetch_item_ok_200 [OF catalog_names(4)] fetch_item_ok_200 [OF catalog_names(5)]
      fetch_item_ok_200 [OF catalog_names(6)] summary_def)

text \<open>
  C10. For every client state, \<open>async_get_settings\<close> returns \<open>None\<close> and sends nothing:
  it hands the settings URL to \<open>async_get_data\<close>, which looks it up as a catalog name
  and finds no entry.
\<close>

theorem async_get_settings_none: "async_get_settings srv st = (Inr JNull, st)"
  by (simp add: async_get_settings_def async_get_data_def endpoint_item_settings
      settings_url_no_name)

end
